theory Spec2Isabelle
  imports Main "HOL-Library.Sublist"
begin

section \<open>ServerRequest: the data of \<^verbatim>\<open>server_request.cpp\<close>\<close>

text \<open>
  \<^verbatim>\<open>SessionInfo\<close> is read through three getters only; they are the fields of the record.
  The web port is a C++ \<^verbatim>\<open>int\<close> on which no arithmetic is done, hence \<open>int\<close>.
\<close>

record SessionInfo =
  GetServerAddress :: string
  GetWebPort :: int
  GetWebServerCertificate :: string

text \<open>
  \<^verbatim>\<open>ITransport\<close> is used through four \<^verbatim>\<open>const\<close> methods. Each is a field: the answer the
  instance gives during the call.
\<close>

record ITransport =
  GetTransportProtocolName :: string
  IsConnected :: bool
  IsServerRequestTunnelled :: bool
  IsHandshakeRequired :: "SessionInfo \<Rightarrow> bool"

text \<open>
  What a callee can throw: the stop signal's exception (\<^verbatim>\<open>CheckSignal(reasons, true)\<close>
  "throws if signaled"), \<^verbatim>\<open>TransportConnection::TryNextServer\<close> (the only exception
  \<^verbatim>\<open>MakeRequest\<close> catches), or anything else.
\<close>

datatype exn = StopException | TryNextServer | OtherException

text \<open>
  The arguments of one \<^verbatim>\<open>HTTPSRequest::MakeRequest\<close> call, the stop info and the
  \<^verbatim>\<open>response\<close> reference apart. \<^verbatim>\<open>additionalHeaders\<close> is a pointer (\<open>None\<close>
  is \<^verbatim>\<open>NULL\<close>, the default); \<^verbatim>\<open>additionalData\<close> with \<^verbatim>\<open>additionalDataLength\<close>
  is one optional byte string.
\<close>

record HttpsCall =
  callAddress :: string
  callPort :: int
  callCertificate :: string
  callPath :: string
  callUseLocalProxy :: bool
  callHeaders :: "string option"
  callData :: "string option"

text \<open>
  Everything \<^verbatim>\<open>MakeRequest\<close> does to the outside is logged, in order, with the answer
  it got: the poll of the stop signal, an HTTPS request (how it ended, and the contents
  of \<^verbatim>\<open>response\<close> after it), the enumeration of the registry, the deletion of a
  transport instance, a connect and a disconnect.
\<close>

datatype event =
    EvCheckSignal bool
  | EvHttps HttpsCall "exn + bool" string
  | EvNewAll "ITransport list"
  | EvDelete ITransport
  | EvConnect ITransport "exn + unit"
  | EvDisconnect ITransport

text \<open>
  The collaborators whose code is elsewhere (\<^verbatim>\<open>StopSignal\<close>, \<^verbatim>\<open>HTTPSRequest\<close>,
  \<^verbatim>\<open>TransportRegistry\<close>, the transports' own connect) are parameters. Each answers
  from the history of the call so far, so that an answer may change during the call
  (the stop signal raised in the middle of it, a port that fails once and then works).
  \<^verbatim>\<open>stopInfo\<close> is handed to every HTTPS request and every connect: that they may end
  with \<open>StopException\<close> is part of their result type.
\<close>

record Env =
  CheckSignal :: "event list \<Rightarrow> bool"
  HTTPSRequest_MakeRequest :: "event list \<Rightarrow> HttpsCall \<Rightarrow> (exn + bool) \<times> string"
  TransportRegistry_NewAll :: "event list \<Rightarrow> ITransport list"
  Transport_Connect :: "event list \<Rightarrow> ITransport \<Rightarrow> exn + unit"

text \<open>
  How a call ends: it returns its \<^verbatim>\<open>bool\<close>, an exception leaves it, or the
  \<^verbatim>\<open>assert\<close> aborts the process (the assertion is taken as compiled in).
\<close>

datatype outcome = Returned bool | Raised exn | AssertFailed

record state =
  trace :: "event list"
  response :: string

record result =
  outcome :: outcome
  final :: state

section \<open>TransportConnection\<close>

text \<open>
  Modelled from the spec: \<^verbatim>\<open>TransportConnection\<close> (\<^verbatim>\<open>transport_connection.h\<close> and its
  implementation are not among the sources at hand). The specification's connection
  lifecycle: \<^verbatim>\<open>Acquire(transport, sessionInfo) -> Connected | AcquisitionFailed\<close>; on success
  the release, which disconnects the transport, is guaranteed on every exit from the
  enclosing scope. So the object remembers the transport it has connected, \<^verbatim>\<open>Connect\<close>
  either connects it or throws and holds nothing, and the destructor disconnects what is
  held. Whether a connect succeeds, and with which exception it fails, is the
  environment's \<open>Transport_Connect\<close>; the source says of \<^verbatim>\<open>Connect\<close> that it "throws on
  failure" and catches \<^verbatim>\<open>TryNextServer\<close>.
\<close>

record TransportConnection =
  m_transport :: "ITransport option"

definition TransportConnection_Connect ::
  "Env \<Rightarrow> ITransport \<Rightarrow> TransportConnection \<Rightarrow> event list
     \<Rightarrow> (exn + unit) \<times> TransportConnection \<times> event list" where
  "TransportConnection_Connect env transport connection tr =
     (let r = Transport_Connect env tr transport;
          tr' = tr @ [EvConnect transport r]
      in case r of
           Inl e \<Rightarrow> (Inl e, connection, tr')
         | Inr u \<Rightarrow> (Inr u, connection\<lparr>m_transport := Some transport\<rparr>, tr'))"

definition TransportConnection_dtor :: "TransportConnection \<Rightarrow> event list \<Rightarrow> event list" where
  "TransportConnection_dtor connection tr =
     (case m_transport connection of
        None \<Rightarrow> tr
      | Some transport \<Rightarrow> tr @ [EvDisconnect transport])"

section \<open>ServerRequest::GetTempTransports\<close>

text \<open>
  The loop over \<^verbatim>\<open>all_transports\<close>: an instance that needs no handshake is pushed to
  the back of \<^verbatim>\<open>o_tempTransports\<close>, any other is deleted on the spot.
\<close>

fun GetTempTransports_loop ::
  "SessionInfo \<Rightarrow> ITransport list \<Rightarrow> ITransport list \<times> event list
     \<Rightarrow> ITransport list \<times> event list" where
  "GetTempTransports_loop sessionInfo [] acc = acc"
| "GetTempTransports_loop sessionInfo (it # rest) (o_tempTransports, tr) =
     (if \<not> IsHandshakeRequired it sessionInfo
      then GetTempTransports_loop sessionInfo rest (o_tempTransports @ [it], tr)
      else GetTempTransports_loop sessionInfo rest (o_tempTransports, tr @ [EvDelete it]))"

definition GetTempTransports ::
  "Env \<Rightarrow> SessionInfo \<Rightarrow> event list \<Rightarrow> ITransport list \<times> event list" where
  "GetTempTransports env sessionInfo tr =
     (let all_transports = TransportRegistry_NewAll env tr
      in GetTempTransports_loop sessionInfo all_transports
           ([], tr @ [EvNewAll all_transports]))"

section \<open>ServerRequest::MakeRequest\<close>

definition mkCall ::
  "SessionInfo \<Rightarrow> string \<Rightarrow> string option \<Rightarrow> string option \<Rightarrow> int \<Rightarrow> bool \<Rightarrow> HttpsCall" where
  "mkCall sessionInfo path hdrs dat port proxy =
     \<lparr> callAddress = GetServerAddress sessionInfo,
       callPort = port,
       callCertificate = GetWebServerCertificate sessionInfo,
       callPath = path,
       callUseLocalProxy = proxy,
       callHeaders = hdrs,
       callData = dat \<rparr>"

text \<open>
  One HTTPS request: the call is made, logged with its result, and \<^verbatim>\<open>response\<close> holds
  what the callee left in it.
\<close>

definition doRequest :: "Env \<Rightarrow> HttpsCall \<Rightarrow> state \<Rightarrow> (exn + bool) \<times> state" where
  "doRequest env call st =
     (let (r, resp) = HTTPSRequest_MakeRequest env (trace st) call
      in (r, \<lparr> trace = trace st @ [EvHttps call r resp], response = resp \<rparr>))"

text \<open>
  The loop over \<^verbatim>\<open>ports\<close> (lines 143 to 162). \<open>Some\<close> is an exit from the function
  (\<^verbatim>\<open>return true\<close>, or an exception of the request); \<open>None\<close> is the end of the loop.
\<close>

fun directLoop ::
  "Env \<Rightarrow> SessionInfo \<Rightarrow> string \<Rightarrow> string option \<Rightarrow> string option \<Rightarrow> int list \<Rightarrow> state
     \<Rightarrow> outcome option \<times> state" where
  "directLoop env sessionInfo path hdrs dat [] st = (None, st)"
| "directLoop env sessionInfo path hdrs dat (port # ports) st =
     (let (r, st') = doRequest env (mkCall sessionInfo path hdrs dat port False) st
      in case r of
           Inl e \<Rightarrow> (Some (Raised e), st')
         | Inr ok \<Rightarrow>
             if ok then (Some (Returned True), st')
             else directLoop env sessionInfo path hdrs dat ports st')"

text \<open>
  The loop over \<^verbatim>\<open>tempTransports\<close> (lines 173 to 220). Each iteration owns a fresh
  \<^verbatim>\<open>TransportConnection\<close>, destroyed when the iteration is left: at its end, at
  \<^verbatim>\<open>break\<close>, in the handler of \<^verbatim>\<open>TryNextServer\<close>, and when another exception unwinds
  the stack. The loop ends with \<^verbatim>\<open>success\<close>, which is what the function returns.
\<close>

fun tempLoop ::
  "Env \<Rightarrow> SessionInfo \<Rightarrow> string \<Rightarrow> string option \<Rightarrow> string option \<Rightarrow> ITransport list \<Rightarrow> state
     \<Rightarrow> outcome \<times> state" where
  "tempLoop env sessionInfo path hdrs dat [] st = (Returned False, st)"
| "tempLoop env sessionInfo path hdrs dat (transport # rest) st =
     (case TransportConnection_Connect env transport \<lparr> m_transport = None \<rparr> (trace st) of
        (Inl e, connection, tr1) \<Rightarrow>
          (let st1 = st\<lparr> trace := TransportConnection_dtor connection tr1 \<rparr>
           in if e = TryNextServer
              then tempLoop env sessionInfo path hdrs dat rest st1
              else (Raised e, st1))
      | (Inr u, connection, tr1) \<Rightarrow>
          (let (r, st2) =
                 doRequest env
                   (mkCall sessionInfo path hdrs dat (GetWebPort sessionInfo)
                      (IsServerRequestTunnelled transport))
                   (st\<lparr> trace := tr1 \<rparr>);
               st3 = st2\<lparr> trace := TransportConnection_dtor connection (trace st2) \<rparr>
           in case r of
                Inr ok \<Rightarrow>
                  if ok then (Returned True, st3)
                  else tempLoop env sessionInfo path hdrs dat rest st3
              | Inl e \<Rightarrow>
                  if e = TryNextServer
                  then tempLoop env sessionInfo path hdrs dat rest st3
                  else (Raised e, st3)))"

text \<open>
  Lines 167 to 224: the candidates are selected, tried in turn, and, the vector of
  \<^verbatim>\<open>auto_ptr\<close> going out of scope however the function is left, deleted.
\<close>

definition tempStep ::
  "Env \<Rightarrow> SessionInfo \<Rightarrow> string \<Rightarrow> string option \<Rightarrow> string option \<Rightarrow> state \<Rightarrow> result" where
  "tempStep env sessionInfo path hdrs dat st =
     (let (tempTransports, tr1) = GetTempTransports env sessionInfo (trace st);
          (out, st2) = tempLoop env sessionInfo path hdrs dat tempTransports (st\<lparr> trace := tr1 \<rparr>)
      in \<lparr> outcome = out,
           final = st2\<lparr> trace := trace st2 @ map EvDelete tempTransports \<rparr> \<rparr>)"

text \<open>
  Lines 128 to 224, where no transport is connected: nothing is tried unless
  \<^verbatim>\<open>adhocIfNeeded\<close>; otherwise the ports, then the temporary transports.
\<close>

definition failOver ::
  "Env \<Rightarrow> bool \<Rightarrow> SessionInfo \<Rightarrow> string \<Rightarrow> string option \<Rightarrow> string option \<Rightarrow> state \<Rightarrow> result" where
  "failOver env adhocIfNeeded sessionInfo path hdrs dat st =
     (if \<not> adhocIfNeeded then \<lparr> outcome = Returned False, final = st \<rparr>
      else
        (let ports = [GetWebPort sessionInfo, 443]
         in case directLoop env sessionInfo path hdrs dat ports st of
              (Some out, st') \<Rightarrow> \<lparr> outcome = out, final = st' \<rparr>
            | (None, st') \<Rightarrow> tempStep env sessionInfo path hdrs dat st'))"

text \<open>
  The function itself. \<open>requestPath\<close> is a pointer: \<open>None\<close> is \<^verbatim>\<open>NULL\<close>. \<open>response0\<close> is
  what the caller's string holds on entry. The \<open>case\<close> on \<open>currentTransport\<close> is
  \<^verbatim>\<open>currentTransport && currentTransport->IsConnected()\<close>: a null pointer is not asked.
\<close>

definition MakeRequest ::
  "Env \<Rightarrow> bool \<Rightarrow> ITransport option \<Rightarrow> SessionInfo \<Rightarrow> string option \<Rightarrow> string
     \<Rightarrow> string option \<Rightarrow> string option \<Rightarrow> result" where
  "MakeRequest env adhocIfNeeded currentTransport sessionInfo requestPath response0 hdrs dat =
     (let signalled = CheckSignal env [];
          st0 = \<lparr> trace = [EvCheckSignal signalled], response = response0 \<rparr>
      in if signalled then \<lparr> outcome = Raised StopException, final = st0 \<rparr>
         else case requestPath of
           None \<Rightarrow> \<lparr> outcome = AssertFailed, final = st0 \<rparr>
         | Some path \<Rightarrow>
            (let st1 = st0\<lparr> response := [] \<rparr>
             in case currentTransport of
                  None \<Rightarrow> failOver env adhocIfNeeded sessionInfo path hdrs dat st1
                | Some t \<Rightarrow>
                    if IsConnected t then
                      (let (requestSuccess, st2) =
                             doRequest env
                               (mkCall sessionInfo path hdrs dat (GetWebPort sessionInfo)
                                  (IsServerRequestTunnelled t))
                               st1
                       in case requestSuccess of
                            Inl e \<Rightarrow> \<lparr> outcome = Raised e, final = st2 \<rparr>
                          | Inr b \<Rightarrow> \<lparr> outcome = Returned b, final = st2 \<rparr>)
                    else failOver env adhocIfNeeded sessionInfo path hdrs dat st1))"

section \<open>Reading a trace\<close>

text \<open>The HTTPS requests of a trace, and the transports on which a connect was called, in order.\<close>

fun httpsCalls :: "event list \<Rightarrow> HttpsCall list" where
  "httpsCalls [] = []"
| "httpsCalls (EvHttps call r resp # es) = call # httpsCalls es"
| "httpsCalls (e # es) = httpsCalls es"

fun connectCalls :: "event list \<Rightarrow> ITransport list" where
  "connectCalls [] = []"
| "connectCalls (EvConnect t r # es) = t # connectCalls es"
| "connectCalls (e # es) = connectCalls es"

text \<open>The answers the stop signal gave to the polls of a trace.\<close>

fun polls :: "event list \<Rightarrow> bool list" where
  "polls [] = []"
| "polls (EvCheckSignal b # es) = b # polls es"
| "polls (e # es) = polls es"

text \<open>
  The HTTPS requests made before the registry is enumerated: in a call that fails over,
  the direct ones.
\<close>

fun directCalls :: "event list \<Rightarrow> HttpsCall list" where
  "directCalls [] = []"
| "directCalls (EvNewAll ts # es) = []"
| "directCalls (EvHttps call r resp # es) = call # directCalls es"
| "directCalls (e # es) = directCalls es"

definition is_https :: "event \<Rightarrow> bool" where
  "is_https e = (case e of EvHttps call r resp \<Rightarrow> True | _ \<Rightarrow> False)"

text \<open>What an iteration over the candidates \<open>ts\<close> may log.\<close>

definition temp_event :: "ITransport list \<Rightarrow> event \<Rightarrow> bool" where
  "temp_event ts e =
     (case e of
        EvConnect t r \<Rightarrow> t \<in> set ts
      | EvDisconnect t \<Rightarrow> t \<in> set ts
      | EvHttps call r resp \<Rightarrow> True
      | _ \<Rightarrow> False)"

text \<open>
  The life of a temporary connection, read off a trace. Nothing is held at first; a
  connect that succeeds holds its transport; only the disconnect of that very transport
  lets go of it. Connecting while something is held, disconnecting what is not held and
  deleting the held instance are violations, and a violation stays.
\<close>

datatype holding = Idle | Holding ITransport | Violated

fun lifecycle_step :: "holding \<Rightarrow> event \<Rightarrow> holding" where
  "lifecycle_step Idle (EvConnect t (Inr u)) = Holding t"
| "lifecycle_step Idle (EvConnect t (Inl e)) = Idle"
| "lifecycle_step (Holding t') (EvConnect t r) = Violated"
| "lifecycle_step (Holding t') (EvDisconnect t) = (if t = t' then Idle else Violated)"
| "lifecycle_step Idle (EvDisconnect t) = Violated"
| "lifecycle_step (Holding t') (EvDelete t) = (if t = t' then Violated else Holding t')"
| "lifecycle_step Violated e = Violated"
| "lifecycle_step h e = h"

text \<open>Every transport on which a connect is called is deleted later in the trace.\<close>

fun deleted_after_connect :: "event list \<Rightarrow> bool" where
  "deleted_after_connect [] = True"
| "deleted_after_connect (EvConnect t r # es) =
     (EvDelete t \<in> set es \<and> deleted_after_connect es)"
| "deleted_after_connect (e # es) = deleted_after_connect es"

text \<open>
  The part of a trace that the temporary transports leave: nothing, or the enumeration,
  the deletion of the instances that need a handshake, the events of the candidate loop,
  and the deletion of the candidates.
\<close>

definition temp_part :: "SessionInfo \<Rightarrow> event list \<Rightarrow> bool" where
  "temp_part si tail =
     (tail = [] \<or>
      (\<exists>all new.
         tail = EvNewAll all # map EvDelete (filter (\<lambda>t. IsHandshakeRequired t si) all)
                  @ new @ map EvDelete (filter (\<lambda>t. \<not> IsHandshakeRequired t si) all)
         \<and> list_all (temp_event (filter (\<lambda>t. \<not> IsHandshakeRequired t si) all)) new
         \<and> foldl lifecycle_step Idle new = Idle))"

section \<open>Concrete sessions, transports and environments\<close>

definition si8080 :: SessionInfo where
  "si8080 = \<lparr> GetServerAddress = ''192.0.2.7'', GetWebPort = 8080,
               GetWebServerCertificate = ''MIIC'' \<rparr>"

definition si443 :: SessionInfo where
  "si443 = \<lparr> GetServerAddress = ''192.0.2.7'', GetWebPort = 443,
              GetWebServerCertificate = ''MIIC'' \<rparr>"

text \<open>A VPN transport needs a handshake; SSH and OSSH do not (the file's header).\<close>

definition vpn :: ITransport where
  "vpn = \<lparr> GetTransportProtocolName = ''VPN'', IsConnected = False,
            IsServerRequestTunnelled = True, IsHandshakeRequired = (\<lambda>si. True) \<rparr>"

definition ssh :: ITransport where
  "ssh = \<lparr> GetTransportProtocolName = ''SSH'', IsConnected = False,
            IsServerRequestTunnelled = True, IsHandshakeRequired = (\<lambda>si. False) \<rparr>"

definition ossh :: ITransport where
  "ossh = \<lparr> GetTransportProtocolName = ''OSSH'', IsConnected = False,
             IsServerRequestTunnelled = True, IsHandshakeRequired = (\<lambda>si. False) \<rparr>"

definition sshUp :: ITransport where
  "sshUp = \<lparr> GetTransportProtocolName = ''SSH'', IsConnected = True,
              IsServerRequestTunnelled = True, IsHandshakeRequired = (\<lambda>si. False) \<rparr>"

text \<open>Every request succeeds.\<close>

definition envOk :: Env where
  "envOk = \<lparr> CheckSignal = (\<lambda>tr. False),
              HTTPSRequest_MakeRequest = (\<lambda>tr call. (Inr True, ''OK'')),
              TransportRegistry_NewAll = (\<lambda>tr. [vpn, ssh, ossh]),
              Transport_Connect = (\<lambda>tr t. Inr ()) \<rparr>"

text \<open>Every request fails; every connect succeeds.\<close>

definition envFail :: Env where
  "envFail = \<lparr> CheckSignal = (\<lambda>tr. False),
                HTTPSRequest_MakeRequest = (\<lambda>tr call. (Inr False, [])),
                TransportRegistry_NewAll = (\<lambda>tr. [vpn, ssh, ossh]),
                Transport_Connect = (\<lambda>tr t. Inr ()) \<rparr>"

text \<open>Only port 443 answers.\<close>

definition env443 :: Env where
  "env443 = \<lparr> CheckSignal = (\<lambda>tr. False),
               HTTPSRequest_MakeRequest =
                 (\<lambda>tr call. if callPort call = 443 then (Inr True, ''R'') else (Inr False, [])),
               TransportRegistry_NewAll = (\<lambda>tr. [vpn, ssh, ossh]),
               Transport_Connect = (\<lambda>tr t. Inr ()) \<rparr>"

text \<open>The server is reached through OSSH only: a request succeeds once OSSH is connected.\<close>

definition envOssh :: Env where
  "envOssh = \<lparr> CheckSignal = (\<lambda>tr. False),
                HTTPSRequest_MakeRequest =
                  (\<lambda>tr call. if EvConnect ossh (Inr ()) \<in> set tr then (Inr True, ''X'')
                             else (Inr False, [])),
                TransportRegistry_NewAll = (\<lambda>tr. [vpn, ssh, ossh]),
                Transport_Connect = (\<lambda>tr t. Inr ()) \<rparr>"

text \<open>As \<open>envOssh\<close>, but SSH cannot connect.\<close>

definition envNoSsh :: Env where
  "envNoSsh = envOssh\<lparr> Transport_Connect :=
                 (\<lambda>tr t. if GetTransportProtocolName t = ''SSH'' then Inl TryNextServer else Inr ()) \<rparr>"

text \<open>
  The stop signal is raised as soon as one HTTPS request has been made, and stays
  raised; every request fails.
\<close>

definition envStopLater :: Env where
  "envStopLater = \<lparr> CheckSignal = (\<lambda>tr. httpsCalls tr \<noteq> []),
                     HTTPSRequest_MakeRequest = (\<lambda>tr call. (Inr False, [])),
                     TransportRegistry_NewAll = (\<lambda>tr. [vpn, ssh, ossh]),
                     Transport_Connect = (\<lambda>tr t. Inr ()) \<rparr>"

text \<open>The stop signal is raised from the start.\<close>

definition envStopped :: Env where
  "envStopped = envOk\<lparr> CheckSignal := (\<lambda>tr. True) \<rparr>"

text \<open>
  Every direct request fails, and the request made through SSH ends with an exception
  that is not \<open>TryNextServer\<close>.
\<close>

definition envThrow :: Env where
  "envThrow = \<lparr> CheckSignal = (\<lambda>tr. False),
                 HTTPSRequest_MakeRequest =
                   (\<lambda>tr call. if EvConnect ssh (Inr ()) \<in> set tr then (Inl OtherException, [])
                              else (Inr False, [])),
                 TransportRegistry_NewAll = (\<lambda>tr. [vpn, ssh, ossh]),
                 Transport_Connect = (\<lambda>tr t. Inr ()) \<rparr>"

text \<open>
  As \<open>envOssh\<close>, but the connect of SSH ends with an exception that is not
  \<open>TryNextServer\<close>.
\<close>

definition envSshBroken :: Env where
  "envSshBroken = envOssh\<lparr> Transport_Connect :=
                     (\<lambda>tr t. if GetTransportProtocolName t = ''SSH'' then Inl OtherException
                              else Inr ()) \<rparr>"

section \<open>Lemmas about the iterations and the shape of a trace\<close>

text \<open>
  The selection is a filter. One iteration of the candidate loop is written out
  (\<open>tempLoop_Cons\<close>), and by induction a run of either loop extends the trace: the port
  loop by HTTPS requests only, the candidate loop by connects, requests and disconnects
  of its candidates, with nothing held at its end. Hence the shape of the trace of any
  call (\<open>MakeRequest_shape\<close>): the poll, then requests, then the part of the temporary
  transports. What the claims say of a trace is read off that shape.
\<close>

lemma httpsCalls_append: "httpsCalls (xs @ ys) = httpsCalls xs @ httpsCalls ys"
  by (induction xs rule: httpsCalls.induct) simp_all

lemma connectCalls_append: "connectCalls (xs @ ys) = connectCalls xs @ connectCalls ys"
  by (induction xs rule: connectCalls.induct) simp_all

lemma GetTempTransports_loop_eq:
  "GetTempTransports_loop si all (out, tr) =
     (out @ filter (\<lambda>t. \<not> IsHandshakeRequired t si) all,
      tr @ map EvDelete (filter (\<lambda>t. IsHandshakeRequired t si) all))"
  by (induction all arbitrary: out tr) simp_all

lemma GetTempTransports_eq:
  "GetTempTransports env si tr =
     (filter (\<lambda>t. \<not> IsHandshakeRequired t si) (TransportRegistry_NewAll env tr),
      tr @ EvNewAll (TransportRegistry_NewAll env tr)
         # map EvDelete (filter (\<lambda>t. IsHandshakeRequired t si) (TransportRegistry_NewAll env tr)))"
  by (simp add: GetTempTransports_def Let_def GetTempTransports_loop_eq)

lemma tempLoop_Cons:
  "tempLoop env si p h d (t # ts) st =
     (case Transport_Connect env (trace st) t of
        Inl e \<Rightarrow>
          (let st1 = st\<lparr> trace := trace st @ [EvConnect t (Inl e)] \<rparr>
           in if e = TryNextServer then tempLoop env si p h d ts st1 else (Raised e, st1))
      | Inr u \<Rightarrow>
          (let call = mkCall si p h d (GetWebPort si) (IsServerRequestTunnelled t);
               (r, resp) = HTTPSRequest_MakeRequest env (trace st @ [EvConnect t (Inr u)]) call;
               st3 = \<lparr> trace = trace st @ [EvConnect t (Inr u), EvHttps call r resp, EvDisconnect t],
                       response = resp \<rparr>
           in case r of
                Inr ok \<Rightarrow> if ok then (Returned True, st3) else tempLoop env si p h d ts st3
              | Inl e \<Rightarrow> if e = TryNextServer then tempLoop env si p h d ts st3 else (Raised e, st3)))"
  by (simp add: TransportConnection_Connect_def TransportConnection_dtor_def doRequest_def Let_def
           split: sum.splits prod.splits)

lemma temp_event_simps [simp]:
  "temp_event ts (EvConnect t r) = (t \<in> set ts)"
  "temp_event ts (EvDisconnect t) = (t \<in> set ts)"
  "temp_event ts (EvHttps call q resp)"
  "\<not> temp_event ts (EvCheckSignal b)"
  "\<not> temp_event ts (EvNewAll all)"
  "\<not> temp_event ts (EvDelete t)"
  by (simp_all add: temp_event_def)

lemma temp_event_mono: "temp_event ts e \<Longrightarrow> temp_event (t # ts) e"
  by (auto simp: temp_event_def split: event.splits)

lemma tempLoop_events:
  "tempLoop env si p h d ts st = (out, st') \<Longrightarrow>
     \<exists>new. trace st' = trace st @ new \<and> list_all (temp_event ts) new
        \<and> foldl lifecycle_step Idle new = Idle \<and> prefix (connectCalls new) ts
        \<and> (out = Returned False \<longrightarrow> connectCalls new = ts)"
proof (induction ts arbitrary: st)
  case Nil
  then show ?case by simp
next
  case (Cons t ts)
  show ?case
  proof (cases "Transport_Connect env (trace st) t")
    case (Inl e)
    let ?st1 = "st\<lparr> trace := trace st @ [EvConnect t (Inl e)] \<rparr>"
    show ?thesis
    proof (cases "e = TryNextServer")
      case True
      with Inl Cons.prems
      have "tempLoop env si p h d ts ?st1 = (out, st')"
        by (simp add: tempLoop_Cons del: tempLoop.simps)
      from Cons.IH[OF this] obtain new where
        n: "trace st' = (trace st @ [EvConnect t (Inl e)]) @ new" "list_all (temp_event ts) new"
           "foldl lifecycle_step Idle new = Idle" "prefix (connectCalls new) ts"
           "out = Returned False \<longrightarrow> connectCalls new = ts"
        by auto
      have "list_all (temp_event (t # ts)) (EvConnect t (Inl e) # new)"
        using n(2) by (auto simp: list_all_iff temp_event_mono)
      with n show ?thesis
        by (intro exI[of _ "EvConnect t (Inl e) # new"]) simp
    next
      case False
      with Inl Cons.prems have "st' = ?st1" "out = Raised e"
        by (simp_all add: tempLoop_Cons del: tempLoop.simps)
      then show ?thesis
        by (intro exI[of _ "[EvConnect t (Inl e)]"]) simp
    qed
  next
    case (Inr u)
    define call where "call = mkCall si p h d (GetWebPort si) (IsServerRequestTunnelled t)"
    obtain r resp where hr: "HTTPSRequest_MakeRequest env (trace st @ [EvConnect t (Inr u)]) call = (r, resp)"
      by (cases "HTTPSRequest_MakeRequest env (trace st @ [EvConnect t (Inr u)]) call")
    define st3 where "st3 = \<lparr> trace = trace st @ [EvConnect t (Inr u), EvHttps call r resp, EvDisconnect t], response = resp \<rparr>"
    let ?evs = "[EvConnect t (Inr u), EvHttps call r resp, EvDisconnect t]"
    have evs: "list_all (temp_event (t # ts)) ?evs" by simp
    have stop: "st' = st3 \<and> out \<noteq> Returned False \<Longrightarrow> ?thesis"
      by (intro exI[of _ ?evs]) (simp add: st3_def)
    have cont: "tempLoop env si p h d ts st3 = (out, st') \<Longrightarrow> ?thesis"
    proof -
      assume "tempLoop env si p h d ts st3 = (out, st')"
      from Cons.IH[OF this] obtain new where
        n: "trace st' = trace st3 @ new" "list_all (temp_event ts) new"
           "foldl lifecycle_step Idle new = Idle" "prefix (connectCalls new) ts"
           "out = Returned False \<longrightarrow> connectCalls new = ts"
        by auto
      have "list_all (temp_event (t # ts)) (?evs @ new)"
        using n(2) evs by (auto simp: list_all_iff temp_event_mono)
      with n show ?thesis
        by (intro exI[of _ "?evs @ new"]) (simp add: st3_def)
    qed
    have "(st' = st3 \<and> out \<noteq> Returned False) \<or> tempLoop env si p h d ts st3 = (out, st')"
      using Cons.prems Inr hr
      by (auto simp add: tempLoop_Cons call_def st3_def Let_def
               simp del: tempLoop.simps split: sum.splits if_splits)
    then show ?thesis using stop cont by blast
  qed
qed

lemma tempLoop_ports:
  "tempLoop env si p h d ts st = (out, st') \<Longrightarrow>
     \<exists>new. trace st' = trace st @ new
        \<and> list_all (\<lambda>call. callPort call = GetWebPort si) (httpsCalls new)"
proof (induction ts arbitrary: st)
  case Nil
  then show ?case by simp
next
  case (Cons t ts)
  show ?case
  proof (cases "Transport_Connect env (trace st) t")
    case (Inl e)
    let ?st1 = "st\<lparr> trace := trace st @ [EvConnect t (Inl e)] \<rparr>"
    from Inl Cons.prems
    have "st' = ?st1 \<or> tempLoop env si p h d ts ?st1 = (out, st')"
      by (auto simp add: tempLoop_Cons Let_def simp del: tempLoop.simps split: if_splits)
    then show ?thesis
    proof
      assume "st' = ?st1"
      then show ?thesis by (intro exI[of _ "[EvConnect t (Inl e)]"]) simp
    next
      assume "tempLoop env si p h d ts ?st1 = (out, st')"
      from Cons.IH[OF this] obtain new where
        "trace st' = trace ?st1 @ new"
        "list_all (\<lambda>call. callPort call = GetWebPort si) (httpsCalls new)"
        by auto
      then show ?thesis by (intro exI[of _ "EvConnect t (Inl e) # new"]) simp
    qed
  next
    case (Inr u)
    define call where "call = mkCall si p h d (GetWebPort si) (IsServerRequestTunnelled t)"
    obtain r resp where hr:
      "HTTPSRequest_MakeRequest env (trace st @ [EvConnect t (Inr u)]) call = (r, resp)"
      by (cases "HTTPSRequest_MakeRequest env (trace st @ [EvConnect t (Inr u)]) call")
    define st3 where
      "st3 = \<lparr> trace = trace st @ [EvConnect t (Inr u), EvHttps call r resp, EvDisconnect t],
               response = resp \<rparr>"
    have port: "callPort call = GetWebPort si" by (simp add: call_def mkCall_def)
    have "st' = st3 \<or> tempLoop env si p h d ts st3 = (out, st')"
      using Cons.prems Inr hr
      by (auto simp add: tempLoop_Cons call_def st3_def Let_def
               simp del: tempLoop.simps split: sum.splits if_splits)
    then show ?thesis
    proof
      assume "st' = st3"
      then show ?thesis
        by (intro exI[of _ "[EvConnect t (Inr u), EvHttps call r resp, EvDisconnect t]"])
           (simp add: st3_def port)
    next
      assume "tempLoop env si p h d ts st3 = (out, st')"
      from Cons.IH[OF this] obtain new where
        "trace st' = trace st3 @ new"
        "list_all (\<lambda>call. callPort call = GetWebPort si) (httpsCalls new)"
        by auto
      then show ?thesis
        by (intro exI[of _ "[EvConnect t (Inr u), EvHttps call r resp, EvDisconnect t] @ new"])
           (simp add: st3_def port)
    qed
  qed
qed

lemma is_https_simps [simp]:
  "is_https (EvHttps call r resp)"
  "\<not> is_https (EvCheckSignal b)"
  "\<not> is_https (EvNewAll ts)"
  "\<not> is_https (EvDelete t)"
  "\<not> is_https (EvConnect t c)"
  "\<not> is_https (EvDisconnect t)"
  by (simp_all add: is_https_def)

lemma directLoop_events:
  "directLoop env si p h d ports st = (out, st') \<Longrightarrow>
     \<exists>new. trace st' = trace st @ new \<and> list_all is_https new"
proof (induction ports arbitrary: st)
  case Nil
  then show ?case by simp
next
  case (Cons port ports)
  define call where "call = mkCall si p h d port False"
  obtain r resp where hr: "HTTPSRequest_MakeRequest env (trace st) call = (r, resp)"
    by (cases "HTTPSRequest_MakeRequest env (trace st) call")
  define st1 where "st1 = \<lparr> trace = trace st @ [EvHttps call r resp], response = resp \<rparr>"
  have "st' = st1 \<or> directLoop env si p h d ports st1 = (out, st')"
    using Cons.prems hr
    by (auto simp add: doRequest_def call_def st1_def split: sum.splits if_splits)
  then show ?case
  proof
    assume "st' = st1"
    then show ?thesis
      by (intro exI[of _ "[EvHttps call r resp]"]) (simp add: st1_def)
  next
    assume "directLoop env si p h d ports st1 = (out, st')"
    from Cons.IH[OF this] obtain new where
      "trace st' = trace st1 @ new" "list_all is_https new" by auto
    then show ?thesis
      by (intro exI[of _ "EvHttps call r resp # new"]) (simp add: st1_def)
  qed
qed

lemma tempStep_shape:
  "\<exists>new. trace (final (tempStep env si p h d st)) =
            trace st @ EvNewAll (TransportRegistry_NewAll env (trace st))
              # map EvDelete (filter (\<lambda>t. IsHandshakeRequired t si) (TransportRegistry_NewAll env (trace st)))
              @ new
              @ map EvDelete (filter (\<lambda>t. \<not> IsHandshakeRequired t si) (TransportRegistry_NewAll env (trace st)))
        \<and> list_all (temp_event (filter (\<lambda>t. \<not> IsHandshakeRequired t si) (TransportRegistry_NewAll env (trace st)))) new
        \<and> foldl lifecycle_step Idle new = Idle
        \<and> prefix (connectCalls new) (filter (\<lambda>t. \<not> IsHandshakeRequired t si) (TransportRegistry_NewAll env (trace st)))"
proof -
  let ?all = "TransportRegistry_NewAll env (trace st)"
  let ?temps = "filter (\<lambda>t. \<not> IsHandshakeRequired t si) ?all"
  let ?tr1 = "trace st @ EvNewAll ?all # map EvDelete (filter (\<lambda>t. IsHandshakeRequired t si) ?all)"
  obtain out st2 where l: "tempLoop env si p h d ?temps (st\<lparr> trace := ?tr1 \<rparr>) = (out, st2)"
    by (cases "tempLoop env si p h d ?temps (st\<lparr> trace := ?tr1 \<rparr>)")
  from tempLoop_events[OF l] obtain new where
    n: "trace st2 = ?tr1 @ new" "list_all (temp_event ?temps) new"
       "foldl lifecycle_step Idle new = Idle" "prefix (connectCalls new) ?temps"
    by auto
  have "trace (final (tempStep env si p h d st)) = trace st2 @ map EvDelete ?temps"
    using l by (simp add: tempStep_def GetTempTransports_eq)
  with n show ?thesis by (intro exI[of _ new]) simp
qed

lemma failOver_shape:
  "\<exists>hs tail. trace (final (failOver env a si p h d st)) = trace st @ hs @ tail
      \<and> list_all is_https hs \<and> temp_part si tail"
proof (cases a)
  case False
  then show ?thesis
    by (intro exI[of _ "[]"]) (simp add: failOver_def temp_part_def)
next
  case True
  obtain out st' where l: "directLoop env si p h d [GetWebPort si, 443] st = (out, st')"
    by (cases "directLoop env si p h d [GetWebPort si, 443] st")
  from directLoop_events[OF l] obtain hs where
    hs: "trace st' = trace st @ hs" "list_all is_https hs" by auto
  show ?thesis
  proof (cases out)
    case (Some x)
    with l True have "trace (final (failOver env a si p h d st)) = trace st'"
      by (simp add: failOver_def)
    with hs show ?thesis
      by (intro exI[of _ hs] exI[of _ "[]"]) (simp add: temp_part_def)
  next
    case None
    with l True have "failOver env a si p h d st = tempStep env si p h d st'"
      by (simp add: failOver_def)
    moreover from tempStep_shape[of env si p h d st'] obtain new where
      "trace (final (tempStep env si p h d st')) =
            trace st' @ EvNewAll (TransportRegistry_NewAll env (trace st'))
              # map EvDelete (filter (\<lambda>t. IsHandshakeRequired t si) (TransportRegistry_NewAll env (trace st')))
              @ new
              @ map EvDelete (filter (\<lambda>t. \<not> IsHandshakeRequired t si) (TransportRegistry_NewAll env (trace st')))"
      "list_all (temp_event (filter (\<lambda>t. \<not> IsHandshakeRequired t si) (TransportRegistry_NewAll env (trace st')))) new"
      "foldl lifecycle_step Idle new = Idle"
      by blast
    ultimately have "trace (final (failOver env a si p h d st)) = trace st @ hs @
              EvNewAll (TransportRegistry_NewAll env (trace st'))
              # map EvDelete (filter (\<lambda>t. IsHandshakeRequired t si) (TransportRegistry_NewAll env (trace st')))
              @ new
              @ map EvDelete (filter (\<lambda>t. \<not> IsHandshakeRequired t si) (TransportRegistry_NewAll env (trace st')))"
      and "temp_part si (EvNewAll (TransportRegistry_NewAll env (trace st'))
              # map EvDelete (filter (\<lambda>t. IsHandshakeRequired t si) (TransportRegistry_NewAll env (trace st')))
              @ new
              @ map EvDelete (filter (\<lambda>t. \<not> IsHandshakeRequired t si) (TransportRegistry_NewAll env (trace st'))))"
      using hs unfolding temp_part_def by (simp, blast)
    with hs(2) show ?thesis by blast
  qed
qed

lemma temp_part_Nil [simp]: "temp_part si []"
  by (simp add: temp_part_def)

lemma MakeRequest_shape:
  "\<exists>hs tail. trace (final (MakeRequest env a ct si rp r0 h d)) = EvCheckSignal (CheckSignal env []) # hs @ tail
      \<and> list_all is_https hs \<and> temp_part si tail"
proof -
  let ?b = "CheckSignal env []"
  let ?R = "MakeRequest env a ct si rp r0 h d"
  have fo: "\<exists>hs tail. trace (final (failOver env a si p h d \<lparr>trace = [EvCheckSignal ?b], response = []\<rparr>))
       = EvCheckSignal ?b # hs @ tail \<and> list_all is_https hs \<and> temp_part si tail" for p
    using failOver_shape[of env a si p h d "\<lparr>trace = [EvCheckSignal ?b], response = []\<rparr>"] by simp
  have "trace (final ?R) = [EvCheckSignal ?b]
      \<or> (\<exists>c r resp. trace (final ?R) = [EvCheckSignal ?b, EvHttps c r resp])
      \<or> (\<exists>p. ?R = failOver env a si p h d \<lparr>trace = [EvCheckSignal ?b], response = []\<rparr>)"
    by (simp add: MakeRequest_def Let_def doRequest_def
          split: option.split prod.split sum.split) blast
  then consider (poll) "trace (final ?R) = [EvCheckSignal ?b]"
    | (conn) c r resp where "trace (final ?R) = [EvCheckSignal ?b, EvHttps c r resp]"
    | (fail) p where "?R = failOver env a si p h d \<lparr>trace = [EvCheckSignal ?b], response = []\<rparr>"
    by blast
  then show ?thesis
  proof cases
    case poll
    then show ?thesis by (intro exI[of _ "[]"]) simp
  next
    case conn
    then show ?thesis by (intro exI[of _ "[EvHttps c r resp]"] exI[of _ "[]"]) simp
  next
    case fail
    then show ?thesis using fo by simp
  qed
qed

lemma polls_append: "polls (xs @ ys) = polls xs @ polls ys"
  by (induction xs rule: polls.induct) simp_all

lemma polls_https: "list_all is_https hs \<Longrightarrow> polls hs = []"
  by (induction hs rule: polls.induct) simp_all

lemma polls_temp: "list_all (temp_event ts) new \<Longrightarrow> polls new = []"
  by (induction new rule: polls.induct) simp_all

lemma polls_deletes: "polls (map EvDelete xs) = []"
  by (induction xs) simp_all

lemma connectCalls_https: "list_all is_https hs \<Longrightarrow> connectCalls hs = []"
  by (induction hs rule: connectCalls.induct) simp_all

lemma connectCalls_deletes: "connectCalls (map EvDelete xs) = []"
  by (induction xs) simp_all

lemma connectCalls_temp: "list_all (temp_event ts) new \<Longrightarrow> set (connectCalls new) \<subseteq> set ts"
  by (induction new rule: connectCalls.induct) simp_all

lemma lifecycle_https: "list_all is_https hs \<Longrightarrow> foldl lifecycle_step s hs = s"
proof (induction hs arbitrary: s)
  case Nil
  then show ?case by simp
next
  case (Cons e hs)
  then obtain call r resp where "e = EvHttps call r resp"
    by (cases e) simp_all
  with Cons show ?case by (cases s) simp_all
qed

lemma lifecycle_deletes: "foldl lifecycle_step Idle (map EvDelete xs) = Idle"
  by (induction xs) simp_all

lemma deleted_after_connect_none:
  "connectCalls xs = [] \<Longrightarrow> deleted_after_connect (xs @ ys) = deleted_after_connect ys"
  by (induction xs rule: connectCalls.induct) simp_all

lemma deleted_after_connect_deletes: "deleted_after_connect (map EvDelete xs)"
  by (induction xs) simp_all

lemma deleted_after_connect_temp:
  "set (connectCalls new) \<subseteq> set ts \<Longrightarrow> deleted_after_connect (new @ map EvDelete ts)"
  by (induction new rule: connectCalls.induct) (auto simp add: deleted_after_connect_deletes)

lemma temp_part_polls: "temp_part si tail \<Longrightarrow> polls tail = []"
  by (auto simp add: temp_part_def polls_append polls_deletes polls_temp)

lemma temp_part_lifecycle: "temp_part si tail \<Longrightarrow> foldl lifecycle_step Idle tail = Idle"
  by (auto simp add: temp_part_def lifecycle_deletes)

lemma temp_part_deleted: "temp_part si tail \<Longrightarrow> deleted_after_connect tail"
proof -
  assume "temp_part si tail"
  then consider "tail = []"
    | all new where
        "tail = EvNewAll all # (map EvDelete (filter (\<lambda>t. IsHandshakeRequired t si) all)
                  @ (new @ map EvDelete (filter (\<lambda>t. \<not> IsHandshakeRequired t si) all)))"
        "list_all (temp_event (filter (\<lambda>t. \<not> IsHandshakeRequired t si) all)) new"
    by (auto simp add: temp_part_def)
  then show ?thesis
  proof cases
    case 1
    then show ?thesis by simp
  next
    case 2
    from 2(2) have "deleted_after_connect (new @ map EvDelete (filter (\<lambda>t. \<not> IsHandshakeRequired t si) all))"
      by (intro deleted_after_connect_temp connectCalls_temp)
    then show ?thesis
      unfolding 2(1) by (simp add: deleted_after_connect_none connectCalls_deletes)
  qed
qed

lemma temp_part_connects:
  "temp_part si tail \<Longrightarrow> t \<in> set (connectCalls tail) \<Longrightarrow>
     \<not> IsHandshakeRequired t si \<and> (\<exists>all. EvNewAll all \<in> set tail \<and> t \<in> set all)"
proof -
  assume tp: "temp_part si tail" and t: "t \<in> set (connectCalls tail)"
  from t have "tail \<noteq> []" by auto
  with tp obtain all new where
    tail: "tail = EvNewAll all # (map EvDelete (filter (\<lambda>t. IsHandshakeRequired t si) all)
                  @ (new @ map EvDelete (filter (\<lambda>t. \<not> IsHandshakeRequired t si) all)))"
    and new: "list_all (temp_event (filter (\<lambda>t. \<not> IsHandshakeRequired t si) all)) new"
    by (auto simp add: temp_part_def)
  from t have "t \<in> set (connectCalls new)"
    unfolding tail by (simp add: connectCalls_append connectCalls_deletes)
  with connectCalls_temp[OF new] have "t \<in> set (filter (\<lambda>t. \<not> IsHandshakeRequired t si) all)"
    by blast
  then show ?thesis unfolding tail by auto
qed

lemma MakeRequest_connects:
  assumes "t \<in> set (connectCalls (trace (final (MakeRequest env a ct si rp r0 h d))))"
  shows "\<not> IsHandshakeRequired t si"
    and "\<exists>all. EvNewAll all \<in> set (trace (final (MakeRequest env a ct si rp r0 h d))) \<and> t \<in> set all"
proof -
  from MakeRequest_shape[of env a ct si rp r0 h d] obtain hs tail where
    sh: "trace (final (MakeRequest env a ct si rp r0 h d)) = EvCheckSignal (CheckSignal env []) # hs @ tail"
        "list_all is_https hs" "temp_part si tail"
    by blast
  from assms have "t \<in> set (connectCalls tail)"
    unfolding sh(1) using sh(2) by (simp add: connectCalls_append connectCalls_https)
  from temp_part_connects[OF sh(3) this]
  show "\<not> IsHandshakeRequired t si"
    and "\<exists>all. EvNewAll all \<in> set (trace (final (MakeRequest env a ct si rp r0 h d))) \<and> t \<in> set all"
    unfolding sh(1) by auto
qed

lemma temp_part_disconnects:
  "temp_part si tail \<Longrightarrow> EvDisconnect t \<in> set tail \<Longrightarrow>
     \<exists>all. EvNewAll all \<in> set tail \<and> t \<in> set all"
proof -
  assume tp: "temp_part si tail" and t: "EvDisconnect t \<in> set tail"
  from t have "tail \<noteq> []" by auto
  with tp obtain all new where
    tail: "tail = EvNewAll all # (map EvDelete (filter (\<lambda>t. IsHandshakeRequired t si) all)
                  @ (new @ map EvDelete (filter (\<lambda>t. \<not> IsHandshakeRequired t si) all)))"
    and new: "list_all (temp_event (filter (\<lambda>t. \<not> IsHandshakeRequired t si) all)) new"
    by (auto simp add: temp_part_def)
  from t have "EvDisconnect t \<in> set new"
    unfolding tail by auto
  with new have "t \<in> set all"
    by (auto simp add: list_all_iff)
  then show ?thesis unfolding tail by auto
qed

lemma MakeRequest_disconnects:
  assumes "EvDisconnect t \<in> set (trace (final (MakeRequest env a ct si rp r0 h d)))"
  shows "\<exists>all. EvNewAll all \<in> set (trace (final (MakeRequest env a ct si rp r0 h d))) \<and> t \<in> set all"
proof -
  from MakeRequest_shape[of env a ct si rp r0 h d] obtain hs tail where
    sh: "trace (final (MakeRequest env a ct si rp r0 h d)) = EvCheckSignal (CheckSignal env []) # hs @ tail"
        "list_all is_https hs" "temp_part si tail"
    by blast
  from assms sh(2) have "EvDisconnect t \<in> set tail"
    unfolding sh(1) by (auto simp add: list_all_iff)
  from temp_part_disconnects[OF sh(3) this] show ?thesis
    unfolding sh(1) by auto
qed

lemma failOver_direct:
  assumes "HTTPSRequest_MakeRequest env (trace st) (mkCall si p h d (GetWebPort si) False) = (r1, resp1)"
      and "HTTPSRequest_MakeRequest env
             (trace st @ [EvHttps (mkCall si p h d (GetWebPort si) False) r1 resp1])
             (mkCall si p h d 443 False) = (r2, resp2)"
  shows "failOver env True si p h d st =
     (let a1 = EvHttps (mkCall si p h d (GetWebPort si) False) r1 resp1;
          a2 = EvHttps (mkCall si p h d 443 False) r2 resp2;
          st1 = \<lparr> trace = trace st @ [a1], response = resp1 \<rparr>;
          st2 = \<lparr> trace = trace st @ [a1, a2], response = resp2 \<rparr>
      in case r1 of
           Inl e \<Rightarrow> \<lparr> outcome = Raised e, final = st1 \<rparr>
         | Inr ok1 \<Rightarrow>
             if ok1 then \<lparr> outcome = Returned True, final = st1 \<rparr>
             else (case r2 of
                     Inl e \<Rightarrow> \<lparr> outcome = Raised e, final = st2 \<rparr>
                   | Inr ok2 \<Rightarrow>
                       if ok2 then \<lparr> outcome = Returned True, final = st2 \<rparr>
                       else tempStep env si p h d st2))"
  using assms
  by (cases r1; cases r2) (auto simp add: failOver_def doRequest_def Let_def)

lemma MakeRequest_failOver:
  assumes "\<not> CheckSignal env []"
      and "ct = None \<or> (\<exists>t. ct = Some t \<and> \<not> IsConnected t)"
  shows "MakeRequest env a ct si (Some p) r0 h d =
           failOver env a si p h d \<lparr> trace = [EvCheckSignal False], response = [] \<rparr>"
  using assms by (auto simp add: MakeRequest_def)

lemma tempStep_first:
  "\<exists>rest. trace (final (tempStep env si p h d st)) = trace st @ EvNewAll (TransportRegistry_NewAll env (trace st)) # rest"
  using tempStep_shape[of env si p h d st] by blast

lemma MakeRequest_directCalls:
  assumes "\<not> CheckSignal env []"
      and "ct = None \<or> (\<exists>t. ct = Some t \<and> \<not> IsConnected t)"
  shows "directCalls (trace (final (MakeRequest env True ct si (Some p) r0 h d))) =
     (if fst (HTTPSRequest_MakeRequest env [EvCheckSignal False]
                (mkCall si p h d (GetWebPort si) False)) = Inr False
      then [mkCall si p h d (GetWebPort si) False, mkCall si p h d 443 False]
      else [mkCall si p h d (GetWebPort si) False])"
proof -
  let ?c1 = "mkCall si p h d (GetWebPort si) False"
  let ?c2 = "mkCall si p h d 443 False"
  obtain r1 resp1 where h1: "HTTPSRequest_MakeRequest env [EvCheckSignal False] ?c1 = (r1, resp1)"
    by (cases "HTTPSRequest_MakeRequest env [EvCheckSignal False] ?c1")
  obtain r2 resp2 where h2:
    "HTTPSRequest_MakeRequest env [EvCheckSignal False, EvHttps ?c1 r1 resp1] ?c2 = (r2, resp2)"
    by (cases "HTTPSRequest_MakeRequest env [EvCheckSignal False, EvHttps ?c1 r1 resp1] ?c2")
  let ?st1 = "\<lparr> trace = [EvCheckSignal False, EvHttps ?c1 r1 resp1], response = resp1 \<rparr>"
  let ?st2 = "\<lparr> trace = [EvCheckSignal False, EvHttps ?c1 r1 resp1, EvHttps ?c2 r2 resp2], response = resp2 \<rparr>"
  obtain rest where rest: "trace (final (tempStep env si p h d ?st2)) =
       trace ?st2 @ EvNewAll (TransportRegistry_NewAll env (trace ?st2)) # rest"
    using tempStep_first[of env si p h d ?st2] by blast
  have "MakeRequest env True ct si (Some p) r0 h d =
          failOver env True si p h d \<lparr> trace = [EvCheckSignal False], response = [] \<rparr>"
    using assms by (rule MakeRequest_failOver)
  also note failOver_direct[of env "\<lparr> trace = [EvCheckSignal False], response = [] \<rparr>" si p h d r1 resp1 r2 resp2]
  finally have R: "MakeRequest env True ct si (Some p) r0 h d =
     (case r1 of
           Inl e \<Rightarrow> \<lparr> outcome = Raised e, final = ?st1 \<rparr>
         | Inr ok1 \<Rightarrow>
             if ok1 then \<lparr> outcome = Returned True, final = ?st1 \<rparr>
             else (case r2 of
                     Inl e \<Rightarrow> \<lparr> outcome = Raised e, final = ?st2 \<rparr>
                   | Inr ok2 \<Rightarrow>
                       if ok2 then \<lparr> outcome = Returned True, final = ?st2 \<rparr>
                       else tempStep env si p h d ?st2))"
    using h1 h2 by (simp add: Let_def)
  show ?thesis
  proof (cases r1)
    case (Inl e)
    with R h1 show ?thesis by simp
  next
    case (Inr ok1)
    show ?thesis
    proof (cases ok1)
      case True
      with R h1 Inr show ?thesis by simp
    next
      case False
      with R h1 Inr rest show ?thesis
        by (cases r2) auto
    qed
  qed
qed

lemmas run_defs = MakeRequest_def failOver_def tempStep_def GetTempTransports_def doRequest_def
  mkCall_def TransportConnection_Connect_def TransportConnection_dtor_def Let_def

lemmas example_defs = si8080_def si443_def vpn_def ssh_def ossh_def sshUp_def
  envOk_def envFail_def env443_def envOssh_def envNoSsh_def envStopLater_def envStopped_def envThrow_def envSshBroken_def

section \<open>The claims\<close>

subsection \<open>C1: a connected transport carries the one request\<close>

text \<open>
  Claim C1. In a call that passes the poll of the stop signal, with a request path and
  a current transport that reports connected, exactly one HTTPS request is made. Its
  arguments are written out: the session's address, web port and certificate, the path,
  headers and data of the call, and as local-proxy flag what the transport reports
  (\<^verbatim>\<open>IsServerRequestTunnelled\<close>). The call ends as that request ends (its boolean, or
  its exception) and \<^verbatim>\<open>response\<close> is what the request left. The trace is the poll and
  the request: the one request's port is the web port and its flag the transport's, no
  connect is called, the registry is not enumerated; \<^verbatim>\<open>adhocIfNeeded\<close> plays no part.
\<close>

theorem connected_transport_single_request:
  assumes "\<not> CheckSignal env []" and "IsConnected t"
  shows "MakeRequest env adhocIfNeeded (Some t) sessionInfo (Some path) response0 hdrs dat =
     (let call = \<lparr> callAddress = GetServerAddress sessionInfo,
                    callPort = GetWebPort sessionInfo,
                    callCertificate = GetWebServerCertificate sessionInfo,
                    callPath = path,
                    callUseLocalProxy = IsServerRequestTunnelled t,
                    callHeaders = hdrs,
                    callData = dat \<rparr>;
          (r, resp) = HTTPSRequest_MakeRequest env [EvCheckSignal False] call
      in \<lparr> outcome = (case r of Inl e \<Rightarrow> Raised e | Inr b \<Rightarrow> Returned b),
           final = \<lparr> trace = [EvCheckSignal False, EvHttps call r resp], response = resp \<rparr> \<rparr>)
     \<and> map callPort (httpsCalls (trace (final
           (MakeRequest env adhocIfNeeded (Some t) sessionInfo (Some path) response0 hdrs dat))))
         = [GetWebPort sessionInfo]
     \<and> map callUseLocalProxy (httpsCalls (trace (final
           (MakeRequest env adhocIfNeeded (Some t) sessionInfo (Some path) response0 hdrs dat))))
         = [IsServerRequestTunnelled t]
     \<and> connectCalls (trace (final
           (MakeRequest env adhocIfNeeded (Some t) sessionInfo (Some path) response0 hdrs dat))) = []
     \<and> directCalls (trace (final
           (MakeRequest env adhocIfNeeded (Some t) sessionInfo (Some path) response0 hdrs dat)))
         = httpsCalls (trace (final
           (MakeRequest env adhocIfNeeded (Some t) sessionInfo (Some path) response0 hdrs dat)))"
  using assms
  by (simp add: MakeRequest_def doRequest_def mkCall_def Let_def split: prod.splits sum.splits)

text \<open>
  A connected SSH transport, port 8080: one request, through the local proxy, whose
  success is returned.
\<close>

theorem connected_transport_single_request_witness:
  "\<not> CheckSignal envOk [] \<and> IsConnected sshUp \<and>
   MakeRequest envOk True (Some sshUp) si8080 (Some ''/status'') ''stale'' None None =
     \<lparr> outcome = Returned True,
       final = \<lparr> trace = [EvCheckSignal False,
                          EvHttps \<lparr> callAddress = ''192.0.2.7'', callPort = 8080,
                                   callCertificate = ''MIIC'', callPath = ''/status'',
                                   callUseLocalProxy = True, callHeaders = None,
                                   callData = None \<rparr> (Inr True) ''OK''],
                 response = ''OK'' \<rparr> \<rparr>"
proof -
  have h: "\<not> CheckSignal envOk []" "IsConnected sshUp"
    by (simp_all add: envOk_def sshUp_def)
  from connected_transport_single_request[OF h, of True si8080 "''/status''" "''stale''" None None]
  have "MakeRequest envOk True (Some sshUp) si8080 (Some ''/status'') ''stale'' None None =
     (let call = \<lparr> callAddress = GetServerAddress si8080,
                    callPort = GetWebPort si8080,
                    callCertificate = GetWebServerCertificate si8080,
                    callPath = ''/status'',
                    callUseLocalProxy = IsServerRequestTunnelled sshUp,
                    callHeaders = None,
                    callData = None \<rparr>;
          (r, resp) = HTTPSRequest_MakeRequest envOk [EvCheckSignal False] call
      in \<lparr> outcome = (case r of Inl e \<Rightarrow> Raised e | Inr b \<Rightarrow> Returned b),
           final = \<lparr> trace = [EvCheckSignal False, EvHttps call r resp], response = resp \<rparr> \<rparr>)"
    by blast
  then show ?thesis using h
    by (simp add: envOk_def sshUp_def si8080_def)
qed

subsection \<open>C2: the ports tried directly\<close>

text \<open>
  Claim C2, as the code has it. In a call that fails over (the stop signal not raised at
  the start, a request path, no connected transport, \<^verbatim>\<open>adhocIfNeeded\<close>), the ports of
  the direct requests are the session's web port and then, exactly when the first request
  returned \<^verbatim>\<open>false\<close>, 443. No port is skipped for being equal to one already tried.
\<close>

theorem direct_ports_not_skipped:
  assumes "\<not> CheckSignal env []"
      and "ct = None \<or> (\<exists>t. ct = Some t \<and> \<not> IsConnected t)"
  shows "map callPort (directCalls (trace (final (MakeRequest env True ct si (Some p) r0 h d)))) =
     (if fst (HTTPSRequest_MakeRequest env [EvCheckSignal False]
                (mkCall si p h d (GetWebPort si) False)) = Inr False
      then [GetWebPort si, 443] else [GetWebPort si])"
  using MakeRequest_directCalls[OF assms, of si p r0 h d]
  by (simp add: mkCall_def)

text \<open>
  Web port 8080 and a server that answers on 443 only: 8080, then 443.
\<close>

theorem direct_ports_not_skipped_witness:
  "\<not> CheckSignal env443 [] \<and>
   map callPort (directCalls (trace (final
     (MakeRequest env443 True None si8080 (Some ''/status'') [] None None)))) = [8080, 443]"
proof -
  have h: "\<not> CheckSignal env443 []" by (simp add: env443_def)
  from direct_ports_not_skipped[OF h, of None si8080 "''/status''" "[]" None None]
  show ?thesis using h by (simp add: env443_def si8080_def mkCall_def)
qed

text \<open>
  Against the claim as stated: with web port 443 and a server that does not answer, port
  443 is requested twice in the direct step, not once.
\<close>

theorem port_443_tried_twice:
  "map callPort (directCalls (trace (final
     (MakeRequest envFail True None si443 (Some ''/status'') [] None None)))) = [443, 443]"
  by (simp add: run_defs example_defs)

subsection \<open>C3: where the stop signal is polled\<close>

text \<open>
  Claim C3, as the code has it. \<^verbatim>\<open>MakeRequest\<close> polls the stop signal once, and the
  poll is the first thing it does. If the signal is raised then, the call ends with the
  stop exception, having made no request and no connect, and the caller's \<^verbatim>\<open>response\<close>
  is untouched. There is no poll before a port or before a candidate.
\<close>

theorem stop_signal_polled_once:
  "polls (trace (final (MakeRequest env a ct si rp r0 h d))) = [CheckSignal env []]
   \<and> (\<exists>rest. trace (final (MakeRequest env a ct si rp r0 h d)) = EvCheckSignal (CheckSignal env []) # rest)
   \<and> (CheckSignal env [] \<longrightarrow>
        MakeRequest env a ct si rp r0 h d
          = \<lparr> outcome = Raised StopException,
              final = \<lparr> trace = [EvCheckSignal True], response = r0 \<rparr> \<rparr>)"
proof -
  from MakeRequest_shape[of env a ct si rp r0 h d] obtain hs tail where
    sh: "trace (final (MakeRequest env a ct si rp r0 h d)) = EvCheckSignal (CheckSignal env []) # hs @ tail"
        "list_all is_https hs" "temp_part si tail"
    by blast
  then have "polls (trace (final (MakeRequest env a ct si rp r0 h d))) = [CheckSignal env []]"
    by (simp add: polls_append polls_https temp_part_polls)
  moreover have "CheckSignal env [] \<longrightarrow>
        MakeRequest env a ct si rp r0 h d
          = \<lparr> outcome = Raised StopException,
              final = \<lparr> trace = [EvCheckSignal True], response = r0 \<rparr> \<rparr>"
    by (simp add: MakeRequest_def)
  ultimately show ?thesis using sh(1) by blast
qed

text \<open>
  The signal raised from the start, a connected transport at hand: one poll, the stop
  exception, nothing else.
\<close>

theorem stop_signal_polled_once_witness:
  "CheckSignal envStopped [] \<and>
   MakeRequest envStopped True (Some sshUp) si8080 (Some ''/status'') ''stale'' None None
     = \<lparr> outcome = Raised StopException,
         final = \<lparr> trace = [EvCheckSignal True], response = ''stale'' \<rparr> \<rparr>
   \<and> polls (trace (final
        (MakeRequest envStopped True (Some sshUp) si8080 (Some ''/status'') ''stale'' None None)))
       = [True]"
proof -
  have h: "CheckSignal envStopped []" by (simp add: envStopped_def)
  from stop_signal_polled_once[of envStopped True "Some sshUp" si8080 "Some ''/status''" "''stale''" None None]
  show ?thesis using h by simp
qed

text \<open>
  Against the claim as stated: the signal is raised once the request to port 8080 has
  been made, so it is up before the iteration for port 443. The call goes on all the
  same: it requests port 443, connects SSH and OSSH in turn, and returns \<^verbatim>\<open>false\<close>,
  not the stop exception.
\<close>

theorem stop_signal_not_polled_between_ports:
  "CheckSignal envStopLater
     (take 2 (trace (final (MakeRequest envStopLater True None si8080 (Some ''/status'') [] None None))))
   \<and> outcome (MakeRequest envStopLater True None si8080 (Some ''/status'') [] None None) = Returned False
   \<and> map callPort (httpsCalls (trace (final
        (MakeRequest envStopLater True None si8080 (Some ''/status'') [] None None))))
       = [8080, 443, 8080, 8080]
   \<and> connectCalls (trace (final
        (MakeRequest envStopLater True None si8080 (Some ''/status'') [] None None))) = [ssh, ossh]
   \<and> polls (trace (final
        (MakeRequest envStopLater True None si8080 (Some ''/status'') [] None None))) = [False]"
  by (simp add: run_defs example_defs)

subsection \<open>C4: every temporary connection is released\<close>

text \<open>
  Claim C4. However a call ends (for every environment, hence for every result of every
  request and of every connect, exceptions included), its trace leaves nothing connected:
  a transport is connected only while none is held, each transport connected is
  disconnected before the next connect and before the end of the call, none is deleted
  while held, and every transport on which a connect was called is deleted later in the
  call.
\<close>

theorem temporary_connection_released:
  "foldl lifecycle_step Idle (trace (final (MakeRequest env a ct si rp r0 h d))) = Idle
   \<and> deleted_after_connect (trace (final (MakeRequest env a ct si rp r0 h d)))"
proof -
  from MakeRequest_shape[of env a ct si rp r0 h d] obtain hs tail where
    sh: "trace (final (MakeRequest env a ct si rp r0 h d)) = EvCheckSignal (CheckSignal env []) # hs @ tail"
        "list_all is_https hs" "temp_part si tail"
    by blast
  have "foldl lifecycle_step Idle (EvCheckSignal (CheckSignal env []) # hs @ tail) = Idle"
    using sh(2,3) by (simp add: lifecycle_https temp_part_lifecycle)
  moreover have "deleted_after_connect (EvCheckSignal (CheckSignal env []) # hs @ tail)"
    using sh(2,3) by (simp add: deleted_after_connect_none connectCalls_https temp_part_deleted)
  ultimately show ?thesis unfolding sh(1) by simp
qed

text \<open>
  The request through SSH throws: the exception leaves the call, and SSH has been
  disconnected and deleted all the same.
\<close>

theorem temporary_connection_released_witness:
  "outcome (MakeRequest envThrow True None si8080 (Some ''/status'') [] None None)
     = Raised OtherException
   \<and> connectCalls (trace (final
      (MakeRequest envThrow True None si8080 (Some ''/status'') [] None None))) = [ssh]
   \<and> foldl lifecycle_step Idle (trace (final
      (MakeRequest envThrow True None si8080 (Some ''/status'') [] None None))) = Idle
   \<and> deleted_after_connect (trace (final
      (MakeRequest envThrow True None si8080 (Some ''/status'') [] None None)))"
proof -
  have "outcome (MakeRequest envThrow True None si8080 (Some ''/status'') [] None None)
     = Raised OtherException"
    and "connectCalls (trace (final
      (MakeRequest envThrow True None si8080 (Some ''/status'') [] None None))) = [ssh]"
    by (simp_all add: run_defs example_defs)
  with temporary_connection_released[of envThrow True None si8080 "Some ''/status''" "[]" None None]
  show ?thesis by blast
qed

subsection \<open>C5: the selection of temporary transports\<close>

text \<open>
  Claim C5. \<^verbatim>\<open>GetTempTransports\<close> returns the instances of the registry that need no
  handshake for the session, in the registry's order, and has deleted each of the others,
  in that order, straight after the enumeration. And in any call of \<^verbatim>\<open>MakeRequest\<close>,
  every transport on which a connect is called needs no handshake for the session.
\<close>

theorem temp_transports_need_no_handshake:
  "GetTempTransports env si tr =
     (filter (\<lambda>t. \<not> IsHandshakeRequired t si) (TransportRegistry_NewAll env tr),
      tr @ EvNewAll (TransportRegistry_NewAll env tr)
         # map EvDelete (filter (\<lambda>t. IsHandshakeRequired t si) (TransportRegistry_NewAll env tr)))
   \<and> list_all (\<lambda>t. \<not> IsHandshakeRequired t si)
        (connectCalls (trace (final (MakeRequest env a ct si rp r0 h d))))"
  using MakeRequest_connects(1)[of _ env a ct si rp r0 h d]
  by (simp add: GetTempTransports_eq list_all_iff)

text \<open>
  The registry hands out VPN, SSH and OSSH: VPN is deleted, SSH and OSSH are the
  candidates.
\<close>

theorem temp_transports_need_no_handshake_witness:
  "GetTempTransports envOssh si8080 [] = ([ssh, ossh], [EvNewAll [vpn, ssh, ossh], EvDelete vpn])
   \<and> list_all (\<lambda>t. \<not> IsHandshakeRequired t si8080)
        (connectCalls (trace (final
           (MakeRequest envOssh True None si8080 (Some ''/status'') [] None None))))"
  using temp_transports_need_no_handshake[of envOssh si8080 "[]" True None "Some ''/status''" "[]" None None]
  by (simp add: envOssh_def vpn_def ssh_def ossh_def)

subsection \<open>C6: no connected transport and no temporary connection allowed\<close>

text \<open>
  Claim C6. With no connected transport (none, or one that reports disconnected) and
  \<^verbatim>\<open>adhocIfNeeded\<close> false, a call makes no HTTPS request, calls no connect and
  never returns \<^verbatim>\<open>true\<close>; and if it passes the poll of the stop signal and has a
  request path, it returns \<^verbatim>\<open>false\<close>, its trace being the poll alone.
\<close>

theorem no_transport_no_adhoc:
  assumes "ct = None \<or> (\<exists>t. ct = Some t \<and> \<not> IsConnected t)"
  shows "httpsCalls (trace (final (MakeRequest env False ct si rp r0 h d))) = []
       \<and> connectCalls (trace (final (MakeRequest env False ct si rp r0 h d))) = []
       \<and> outcome (MakeRequest env False ct si rp r0 h d) \<noteq> Returned True
       \<and> (\<not> CheckSignal env [] \<and> rp \<noteq> None \<longrightarrow>
            MakeRequest env False ct si rp r0 h d
              = \<lparr> outcome = Returned False,
                  final = \<lparr> trace = [EvCheckSignal False], response = [] \<rparr> \<rparr>)"
  using assms
  by (auto simp add: MakeRequest_def failOver_def Let_def split: option.splits)

text \<open>
  A disconnected SSH transport and a server that would answer: nothing is tried.
\<close>

theorem no_transport_no_adhoc_witness:
  "\<not> IsConnected ssh \<and> \<not> CheckSignal envOk [] \<and>
   httpsCalls (trace (final
     (MakeRequest envOk False (Some ssh) si8080 (Some ''/status'') ''stale'' None None))) = []
   \<and> connectCalls (trace (final
     (MakeRequest envOk False (Some ssh) si8080 (Some ''/status'') ''stale'' None None))) = []
   \<and> MakeRequest envOk False (Some ssh) si8080 (Some ''/status'') ''stale'' None None
        = \<lparr> outcome = Returned False,
            final = \<lparr> trace = [EvCheckSignal False], response = [] \<rparr> \<rparr>"
proof -
  have h: "\<not> IsConnected ssh" "\<not> CheckSignal envOk []"
    by (simp_all add: ssh_def envOk_def)
  then have "Some ssh = None \<or> (\<exists>t. Some ssh = Some t \<and> \<not> IsConnected t)" by simp
  from no_transport_no_adhoc[OF this, of envOk si8080 "Some ''/status''" "''stale''" None None]
  show ?thesis using h by simp
qed

subsection \<open>C7: the request path\<close>

text \<open>
  Claim C7, as the code has it. The assertion is on the pointer: a call that passes the
  poll of the stop signal with a null request path fails the assertion at once, with no
  request and no connect made, and \<^verbatim>\<open>response\<close> untouched.
\<close>

theorem null_path_asserts:
  "\<not> CheckSignal env [] \<Longrightarrow>
     MakeRequest env a ct si None r0 h d
       = \<lparr> outcome = AssertFailed,
           final = \<lparr> trace = [EvCheckSignal False], response = r0 \<rparr> \<rparr>"
  by (simp add: MakeRequest_def)

text \<open>
  A null path, with a connected transport and a server that would answer.
\<close>

theorem null_path_asserts_witness:
  "\<not> CheckSignal envOk [] \<and>
   MakeRequest envOk True (Some sshUp) si8080 None ''stale'' None None
     = \<lparr> outcome = AssertFailed,
         final = \<lparr> trace = [EvCheckSignal False], response = ''stale'' \<rparr> \<rparr>"
proof -
  have h: "\<not> CheckSignal envOk []" by (simp add: envOk_def)
  from null_path_asserts[OF h, of True "Some sshUp" si8080 "''stale''" None None]
  show ?thesis using h by simp
qed

text \<open>
  Against the claim as stated: an empty path is not null. The call makes the request,
  with the empty path, and returns its success.
\<close>

theorem empty_path_is_requested:
  "MakeRequest envOk True (Some sshUp) si8080 (Some []) ''stale'' None None =
     \<lparr> outcome = Returned True,
       final = \<lparr> trace = [EvCheckSignal False,
                          EvHttps \<lparr> callAddress = ''192.0.2.7'', callPort = 8080,
                                   callCertificate = ''MIIC'', callPath = [],
                                   callUseLocalProxy = True, callHeaders = None,
                                   callData = None \<rparr> (Inr True) ''OK''],
                 response = ''OK'' \<rparr> \<rparr>"
  by (simp add: run_defs example_defs)

subsection \<open>C8: the direct requests\<close>



subsection \<open>C9: the loop over the candidates\<close>

text \<open>
  Claim C9, as the code has it. The loop returns \<^verbatim>\<open>false\<close> on an empty list. A
  candidate whose connect throws \<open>TryNextServer\<close> gets no request and the loop goes on
  with the next one; a connect that throws anything else ends the call with that
  exception. A candidate that connects gets one request, whose arguments are written
  out (the session's web port, the local-proxy flag the candidate reports), and is
  disconnected; success ends the loop with \<^verbatim>\<open>true\<close>, failure or \<open>TryNextServer\<close>
  moves to the next candidate, another exception ends the call. The connects of a run
  follow the list in order, a run that ends with \<^verbatim>\<open>false\<close> has called connect on
  every candidate, and every request of a run goes to the web port. The call's outcome
  is the loop's, run on the selection in its order.
\<close>

theorem candidate_loop:
  "tempLoop env si p h d [] st = (Returned False, st)
   \<and> (Transport_Connect env (trace st) t = Inl e \<longrightarrow>
        tempLoop env si p h d (t # ts) st =
          (let st1 = st\<lparr> trace := trace st @ [EvConnect t (Inl e)] \<rparr>
           in if e = TryNextServer then tempLoop env si p h d ts st1 else (Raised e, st1)))
   \<and> (Transport_Connect env (trace st) t = Inr () \<longrightarrow>
      HTTPSRequest_MakeRequest env (trace st @ [EvConnect t (Inr ())])
          \<lparr> callAddress = GetServerAddress si,
            callPort = GetWebPort si,
            callCertificate = GetWebServerCertificate si,
            callPath = p,
            callUseLocalProxy = IsServerRequestTunnelled t,
            callHeaders = h,
            callData = d \<rparr> = (r, resp) \<longrightarrow>
        tempLoop env si p h d (t # ts) st =
          (let st3 = \<lparr> trace = trace st @
                         [EvConnect t (Inr ()),
                          EvHttps \<lparr> callAddress = GetServerAddress si,
                                   callPort = GetWebPort si,
                                   callCertificate = GetWebServerCertificate si,
                                   callPath = p,
                                   callUseLocalProxy = IsServerRequestTunnelled t,
                                   callHeaders = h,
                                   callData = d \<rparr> r resp,
                          EvDisconnect t],
                       response = resp \<rparr>
           in case r of
                Inr ok \<Rightarrow> if ok then (Returned True, st3) else tempLoop env si p h d ts st3
              | Inl e' \<Rightarrow>
                  if e' = TryNextServer then tempLoop env si p h d ts st3 else (Raised e', st3)))
   \<and> (tempLoop env si p h d ts st = (out, st') \<longrightarrow>
        prefix (connectCalls (drop (length (trace st)) (trace st'))) ts
        \<and> (out = Returned False \<longrightarrow> connectCalls (drop (length (trace st)) (trace st')) = ts)
        \<and> list_all (\<lambda>call. callPort call = GetWebPort si)
             (httpsCalls (drop (length (trace st)) (trace st'))))
   \<and> outcome (tempStep env si p h d st) =
       fst (tempLoop env si p h d
              (filter (\<lambda>t. \<not> IsHandshakeRequired t si) (TransportRegistry_NewAll env (trace st)))
              (st\<lparr> trace := trace st @ EvNewAll (TransportRegistry_NewAll env (trace st))
                       # map EvDelete (filter (\<lambda>t. IsHandshakeRequired t si)
                                         (TransportRegistry_NewAll env (trace st))) \<rparr>))"
proof -
  have c2: "Transport_Connect env (trace st) t = Inl e \<longrightarrow>
        tempLoop env si p h d (t # ts) st =
          (let st1 = st\<lparr> trace := trace st @ [EvConnect t (Inl e)] \<rparr>
           in if e = TryNextServer then tempLoop env si p h d ts st1 else (Raised e, st1))"
    by (simp add: tempLoop_Cons Let_def del: tempLoop.simps)
  have c3: "Transport_Connect env (trace st) t = Inr () \<longrightarrow>
      HTTPSRequest_MakeRequest env (trace st @ [EvConnect t (Inr ())])
          \<lparr> callAddress = GetServerAddress si,
            callPort = GetWebPort si,
            callCertificate = GetWebServerCertificate si,
            callPath = p,
            callUseLocalProxy = IsServerRequestTunnelled t,
            callHeaders = h,
            callData = d \<rparr> = (r, resp) \<longrightarrow>
        tempLoop env si p h d (t # ts) st =
          (let st3 = \<lparr> trace = trace st @
                         [EvConnect t (Inr ()),
                          EvHttps \<lparr> callAddress = GetServerAddress si,
                                   callPort = GetWebPort si,
                                   callCertificate = GetWebServerCertificate si,
                                   callPath = p,
                                   callUseLocalProxy = IsServerRequestTunnelled t,
                                   callHeaders = h,
                                   callData = d \<rparr> r resp,
                          EvDisconnect t],
                       response = resp \<rparr>
           in case r of
                Inr ok \<Rightarrow> if ok then (Returned True, st3) else tempLoop env si p h d ts st3
              | Inl e' \<Rightarrow>
                  if e' = TryNextServer then tempLoop env si p h d ts st3 else (Raised e', st3))"
    by (simp add: tempLoop_Cons mkCall_def Let_def del: tempLoop.simps)
  have c4: "tempLoop env si p h d ts st = (out, st') \<longrightarrow>
        prefix (connectCalls (drop (length (trace st)) (trace st'))) ts
        \<and> (out = Returned False \<longrightarrow> connectCalls (drop (length (trace st)) (trace st')) = ts)
        \<and> list_all (\<lambda>call. callPort call = GetWebPort si)
             (httpsCalls (drop (length (trace st)) (trace st')))"
  proof
    assume l: "tempLoop env si p h d ts st = (out, st')"
    from tempLoop_events[OF l] obtain new where
      "trace st' = trace st @ new" "prefix (connectCalls new) ts"
      "out = Returned False \<longrightarrow> connectCalls new = ts"
      by blast
    moreover from tempLoop_ports[OF l] obtain new' where
      "trace st' = trace st @ new'" "list_all (\<lambda>call. callPort call = GetWebPort si) (httpsCalls new')"
      by blast
    ultimately show "prefix (connectCalls (drop (length (trace st)) (trace st'))) ts
        \<and> (out = Returned False \<longrightarrow> connectCalls (drop (length (trace st)) (trace st')) = ts)
        \<and> list_all (\<lambda>call. callPort call = GetWebPort si)
             (httpsCalls (drop (length (trace st)) (trace st')))"
      by simp
  qed
  have c5: "outcome (tempStep env si p h d st) =
       fst (tempLoop env si p h d
              (filter (\<lambda>t. \<not> IsHandshakeRequired t si) (TransportRegistry_NewAll env (trace st)))
              (st\<lparr> trace := trace st @ EvNewAll (TransportRegistry_NewAll env (trace st))
                       # map EvDelete (filter (\<lambda>t. IsHandshakeRequired t si)
                                         (TransportRegistry_NewAll env (trace st))) \<rparr>))"
    by (simp add: tempStep_def GetTempTransports_eq split: prod.splits)
  from c2 c3 c4 c5 show ?thesis by simp
qed

text \<open>
  SSH cannot connect, OSSH can and reaches the server.
\<close>

theorem candidate_loop_witness:
  "Transport_Connect envNoSsh [] ssh = Inl TryNextServer
   \<and> Transport_Connect envNoSsh [EvConnect ssh (Inl TryNextServer)] ossh = Inr ()
   \<and> tempLoop envNoSsh si8080 ''/status'' None None [ssh, ossh] \<lparr> trace = [], response = [] \<rparr> =
       (Returned True,
        \<lparr> trace = [EvConnect ssh (Inl TryNextServer),
                   EvConnect ossh (Inr ()),
                   EvHttps \<lparr> callAddress = ''192.0.2.7'', callPort = 8080,
                            callCertificate = ''MIIC'', callPath = ''/status'',
                            callUseLocalProxy = True, callHeaders = None,
                            callData = None \<rparr> (Inr True) ''X'',
                   EvDisconnect ossh],
          response = ''X'' \<rparr>)"
proof -
  let ?st = "\<lparr> trace = [], response = [] \<rparr>"
  let ?st1 = "\<lparr> trace = [EvConnect ssh (Inl TryNextServer)], response = [] \<rparr>"
  have h1: "Transport_Connect envNoSsh [] ssh = Inl TryNextServer"
    by (simp add: envNoSsh_def envOssh_def ssh_def)
  have h2: "Transport_Connect envNoSsh [EvConnect ssh (Inl TryNextServer)] ossh = Inr ()"
    by (simp add: envNoSsh_def envOssh_def ossh_def)
  have h3: "HTTPSRequest_MakeRequest envNoSsh
              (trace ?st1 @ [EvConnect ossh (Inr ())])
              \<lparr> callAddress = GetServerAddress si8080,
                callPort = GetWebPort si8080,
                callCertificate = GetWebServerCertificate si8080,
                callPath = ''/status'',
                callUseLocalProxy = IsServerRequestTunnelled ossh,
                callHeaders = None,
                callData = None \<rparr>
            = (Inr True, ''X'')"
    by (simp add: envNoSsh_def envOssh_def)
  from candidate_loop[of envNoSsh si8080 "''/status''" None None ?st ssh TryNextServer "[ossh]"] h1
  have "tempLoop envNoSsh si8080 ''/status'' None None [ssh, ossh] ?st =
        tempLoop envNoSsh si8080 ''/status'' None None [ossh] ?st1"
    by (simp add: Let_def del: tempLoop.simps)
  moreover
  from candidate_loop[of envNoSsh si8080 "''/status''" None None ?st1 ossh _ "[]" "Inr True" "''X''"] h2 h3
  have "tempLoop envNoSsh si8080 ''/status'' None None [ossh] ?st1 =
        (Returned True,
         \<lparr> trace = [EvConnect ssh (Inl TryNextServer),
                    EvConnect ossh (Inr ()),
                    EvHttps \<lparr> callAddress = GetServerAddress si8080,
                             callPort = GetWebPort si8080,
                             callCertificate = GetWebServerCertificate si8080,
                             callPath = ''/status'',
                             callUseLocalProxy = IsServerRequestTunnelled ossh,
                             callHeaders = None,
                             callData = None \<rparr> (Inr True) ''X'',
                    EvDisconnect ossh],
           response = ''X'' \<rparr>)"
    by (simp add: Let_def del: tempLoop.simps)
  ultimately show ?thesis using h1 h2
    by (simp add: si8080_def ossh_def del: tempLoop.simps)
qed

text \<open>
  Against the claim as stated: the connect of SSH fails with an exception other than
  \<open>TryNextServer\<close>. The failure is fatal: the exception leaves the call, and OSSH, the
  next candidate, is never connected.
\<close>

theorem other_connect_failure_ends_call:
  "Transport_Connect envSshBroken
     [EvCheckSignal False,
      EvHttps \<lparr> callAddress = ''192.0.2.7'', callPort = 8080, callCertificate = ''MIIC'',
                callPath = ''/status'', callUseLocalProxy = False, callHeaders = None,
                callData = None \<rparr> (Inr False) [],
      EvHttps \<lparr> callAddress = ''192.0.2.7'', callPort = 443, callCertificate = ''MIIC'',
                callPath = ''/status'', callUseLocalProxy = False, callHeaders = None,
                callData = None \<rparr> (Inr False) [],
      EvNewAll [vpn, ssh, ossh],
      EvDelete vpn] ssh = Inl OtherException
   \<and> MakeRequest envSshBroken True None si8080 (Some ''/status'') ''stale'' None None =
     \<lparr> outcome = Raised OtherException,
       final =
         \<lparr> trace =
             [EvCheckSignal False,
              EvHttps \<lparr> callAddress = ''192.0.2.7'', callPort = 8080, callCertificate = ''MIIC'',
                callPath = ''/status'', callUseLocalProxy = False, callHeaders = None,
                callData = None \<rparr> (Inr False) [],
              EvHttps \<lparr> callAddress = ''192.0.2.7'', callPort = 443, callCertificate = ''MIIC'',
                callPath = ''/status'', callUseLocalProxy = False, callHeaders = None,
                callData = None \<rparr> (Inr False) [],
              EvNewAll [vpn, ssh, ossh],
              EvDelete vpn,
              EvConnect ssh (Inl OtherException),
              EvDelete ssh,
              EvDelete ossh],
           response = [] \<rparr> \<rparr>
   \<and> connectCalls (trace (final
        (MakeRequest envSshBroken True None si8080 (Some ''/status'') ''stale'' None None))) = [ssh]"
  by (simp add: run_defs example_defs)

subsection \<open>C10: a disconnected transport counts as none\<close>

text \<open>
  Claim C10. A call with a current transport that reports disconnected is the call with
  no current transport: same outcome, same response, same trace. Every transport the call
  connects or disconnects is an instance the registry handed out during the call.
\<close>

theorem disconnected_transport_as_absent:
  assumes "\<not> IsConnected t"
  shows "MakeRequest env a (Some t) si rp r0 h d = MakeRequest env a None si rp r0 h d
     \<and> (\<forall>t' \<in> set (connectCalls (trace (final (MakeRequest env a (Some t) si rp r0 h d)))).
           \<exists>all. EvNewAll all \<in> set (trace (final (MakeRequest env a (Some t) si rp r0 h d)))
                 \<and> t' \<in> set all)
     \<and> (\<forall>t'. EvDisconnect t' \<in> set (trace (final (MakeRequest env a (Some t) si rp r0 h d))) \<longrightarrow>
           (\<exists>all. EvNewAll all \<in> set (trace (final (MakeRequest env a (Some t) si rp r0 h d)))
                 \<and> t' \<in> set all))"
proof -
  have "MakeRequest env a (Some t) si rp r0 h d = MakeRequest env a None si rp r0 h d"
    using assms by (simp add: MakeRequest_def Let_def split: option.splits)
  then show ?thesis
    using MakeRequest_connects(2)[of _ env a "Some t" si rp r0 h d]
          MakeRequest_disconnects[of _ env a "Some t" si rp r0 h d]
    by blast
qed

text \<open>
  A disconnected VPN transport as the current one: the call fails over as it would
  without it, and connects SSH and OSSH.
\<close>

theorem disconnected_transport_as_absent_witness:
  "\<not> IsConnected vpn
   \<and> MakeRequest envOssh True (Some vpn) si8080 (Some ''/status'') [] None None
       = MakeRequest envOssh True None si8080 (Some ''/status'') [] None None
   \<and> connectCalls (trace (final
       (MakeRequest envOssh True (Some vpn) si8080 (Some ''/status'') [] None None))) = [ssh, ossh]
   \<and> outcome (MakeRequest envOssh True (Some vpn) si8080 (Some ''/status'') [] None None)
       = Returned True"
proof -
  have h: "\<not> IsConnected vpn" by (simp add: vpn_def)
  have c: "connectCalls (trace (final
       (MakeRequest envOssh True None si8080 (Some ''/status'') [] None None))) = [ssh, ossh]"
     "outcome (MakeRequest envOssh True None si8080 (Some ''/status'') [] None None) = Returned True"
    by (simp_all add: run_defs example_defs)
  from disconnected_transport_as_absent[OF h, of envOssh True si8080 "Some ''/status''" "[]" None None]
  have "MakeRequest envOssh True (Some vpn) si8080 (Some ''/status'') [] None None
       = MakeRequest envOssh True None si8080 (Some ''/status'') [] None None"
    by blast
  with h c show ?thesis by simp
qed

section \<open>A whole run\<close>

text \<open>
  The direct requests to 8080 and 443 fail; the registry hands out VPN (which needs a
  handshake), SSH (no handshake, the request through it fails) and OSSH (no handshake,
  the request succeeds). VPN is deleted unconnected; SSH is connected, tried and
  disconnected; OSSH is connected, tried and disconnected, and its success is returned;
  the two candidates are deleted on the way out.
\<close>

lemma scenario_D:
  "MakeRequest envOssh True None si8080 (Some ''/status'') ''stale'' None None =
     \<lparr> outcome = Returned True,
       final =
         \<lparr> trace =
             [EvCheckSignal False,
              EvHttps (mkCall si8080 ''/status'' None None 8080 False) (Inr False) [],
              EvHttps (mkCall si8080 ''/status'' None None 443 False) (Inr False) [],
              EvNewAll [vpn, ssh, ossh],
              EvDelete vpn,
              EvConnect ssh (Inr ()),
              EvHttps (mkCall si8080 ''/status'' None None 8080 True) (Inr False) [],
              EvDisconnect ssh,
              EvConnect ossh (Inr ()),
              EvHttps (mkCall si8080 ''/status'' None None 8080 True) (Inr True) ''X'',
              EvDisconnect ossh,
              EvDelete ssh,
              EvDelete ossh],
           response = ''X'' \<rparr> \<rparr>"
  by (simp add: run_defs example_defs)

end
